theory Spec2Isabelle
  imports Main
begin

section \<open>JavaScript strings and platform functions\<close>

text \<open>
  A JavaScript string is modelled as a \<^typ>\<open>string\<close> whose characters are the code
  units U+0000 .. U+00FF. DigitalOcean tags, tokens and region slugs are ASCII, which lies
  inside this range, and \<open>toLowerCase\<close> and \<open>trim\<close> map the range into itself.
\<close>

definition toLowerCase_char :: "char \<Rightarrow> char" where
  "toLowerCase_char c =
     (let n = (of_char c :: nat)
      in if (65 \<le> n \<and> n \<le> 90) \<or> (192 \<le> n \<and> n \<le> 222 \<and> n \<noteq> 215)
         then char_of (n + 32) else c)"

definition toLowerCase :: "string \<Rightarrow> string" where
  "toLowerCase s = map toLowerCase_char s"

text \<open>The white space and line terminators that \<open>String.prototype.trim\<close> strips.\<close>

definition isWhiteSpace :: "char \<Rightarrow> bool" where
  "isWhiteSpace c = ((of_char c :: nat) \<in> {9, 10, 11, 12, 13, 32, 160})"

definition trim :: "string \<Rightarrow> string" where
  "trim s = rev (dropWhile isWhiteSpace (rev (dropWhile isWhiteSpace s)))"

definition endsWith :: "string \<Rightarrow> string \<Rightarrow> bool" where
  "endsWith s suffix =
     (length suffix \<le> length s \<and> drop (length s - length suffix) s = suffix)"

text \<open>
  The decimal digits of an integer. A number in a template literal is printed by the
  platform's conversion of numbers to strings, which the functions below take as the
  parameter \<open>numberToString\<close>; for a safe integer (one below \<open>2^53\<close> in absolute
  value) the conversion gives these digits.
\<close>

function showNat :: "nat \<Rightarrow> string" where
  "showNat n = (if n < 10 then [char_of (48 + n)]
                else showNat (n div 10) @ [char_of (48 + n mod 10)])"
  by pat_completeness auto
termination
  by (relation "measure id") auto

declare showNat.simps [simp del]

definition showInt :: "int \<Rightarrow> string" where
  "showInt i = (if i < 0 then CHR ''-'' # showNat (nat (- i)) else showNat (nat i))"

text \<open>\<open>btoa\<close>: base64 with padding, over the code units of the string.\<close>

definition base64Digit :: "nat \<Rightarrow> char" where
  "base64Digit n =
     (if n < 26 then char_of (65 + n)
      else if n < 52 then char_of (71 + n)
      else if n < 62 then char_of (n - 4)
      else if n = 62 then CHR ''+'' else CHR ''/'')"

fun btoaBytes :: "nat list \<Rightarrow> string" where
  "btoaBytes [] = []"
| "btoaBytes [a] =
     [base64Digit (a div 4), base64Digit ((a mod 4) * 16), CHR ''='', CHR ''='']"
| "btoaBytes [a, b] =
     [base64Digit (a div 4), base64Digit ((a mod 4) * 16 + b div 16),
      base64Digit ((b mod 16) * 4), CHR ''='']"
| "btoaBytes (a # b # c # rest) =
     [base64Digit (a div 4), base64Digit ((a mod 4) * 16 + b div 16),
      base64Digit ((b mod 16) * 4 + c div 64), base64Digit (c mod 64)] @ btoaBytes rest"

definition btoa :: "string \<Rightarrow> string" where
  "btoa s = btoaBytes (map of_char s)"

text \<open>
  Truthiness of a value that is a string, \<open>null\<close> or \<open>undefined\<close>: only a non-empty
  string is truthy.
\<close>

datatype JsString = Str string | Null | Undefined

fun truthy :: "JsString \<Rightarrow> bool" where
  "truthy (Str s) = (s \<noteq> [])"
| "truthy Null = False"
| "truthy Undefined = False"

text \<open>What a template literal prints for such a value.\<close>

fun display :: "JsString \<Rightarrow> string" where
  "display (Str s) = s"
| "display Null = ''null''"
| "display Undefined = ''undefined''"

datatype LogEntry = ConsoleError string | ConsoleInfo string | ConsoleLog string

section \<open>infrastructure/hex_encoding\<close>

text \<open>
  Modelled from the spec: the hexadecimal digits of \<open>infrastructure/hex_encoding\<close>, a
  module of this repository that is not among the sources. Encoding writes lower-case
  digits; decoding reads digits of either case.
\<close>

definition hexDigit :: "nat \<Rightarrow> char" where
  "hexDigit n = (if n < 10 then char_of (48 + n) else char_of (87 + n))"

definition hexValue :: "char \<Rightarrow> nat option" where
  "hexValue c =
     (let n = (of_char c :: nat)
      in if 48 \<le> n \<and> n \<le> 57 then Some (n - 48)
         else if 97 \<le> n \<and> n \<le> 102 then Some (n - 87)
         else if 65 \<le> n \<and> n \<le> 70 then Some (n - 55)
         else None)"

text \<open>
  Modelled from the spec: \<open>asciiToHex\<close> of \<open>infrastructure/hex_encoding\<close>, a module of
  this repository that is not among the sources. The spec speaks of the hex-encoding of
  an ASCII value: every character becomes the two lower-case hexadecimal digits of its
  code.
\<close>

definition asciiToHex :: "string \<Rightarrow> string" where
  "asciiToHex s =
     concat (map (\<lambda>c. [hexDigit ((of_char c :: nat) div 16),
                        hexDigit ((of_char c :: nat) mod 16)]) s)"

text \<open>
  Modelled from the spec: \<open>hexToString\<close> of \<open>infrastructure/hex_encoding\<close>, not among
  the sources. It decodes a hex payload and throws when the payload is not valid hex
  (an odd number of digits, or a character that is no hexadecimal digit); \<open>None\<close> is
  the exception.
\<close>

fun hexToString :: "string \<Rightarrow> string option" where
  "hexToString [] = Some []"
| "hexToString [a] = None"
| "hexToString (a # b # rest) =
     (case (hexValue a, hexValue b) of
        (Some h, Some l) \<Rightarrow>
          (case hexToString rest of
             None \<Rightarrow> None
           | Some s \<Rightarrow> Some (char_of (16 * h + l) # s))
      | _ \<Rightarrow> None)"

text \<open>The spec's words for a payload that decodes: valid hex.\<close>

definition validHex :: "string \<Rightarrow> bool" where
  "validHex s = (even (length s) \<and> list_all (\<lambda>c. hexValue c \<noteq> None) s)"

section \<open>web_app/digitalocean_server\<close>

definition KEY_VALUE_TAG :: string where
  "KEY_VALUE_TAG = ''kv''"

definition CERTIFICATE_FINGERPRINT_TAG :: string where
  "CERTIFICATE_FINGERPRINT_TAG = ''certsha256''"

definition API_URL_TAG :: string where
  "API_URL_TAG = ''apiurl''"

definition INSTALL_ERROR_TAG :: string where
  "INSTALL_ERROR_TAG = ''install-error''"

definition DEPRECATED_API_PORT_TAG :: string where
  "DEPRECATED_API_PORT_TAG = ''apiport''"

definition DEPRECATED_API_PREFIX_TAG :: string where
  "DEPRECATED_API_PREFIX_TAG = ''apiprefix''"

text \<open>\<open>[KEY_VALUE_TAG, key, asciiToHex(value)].join(':')\<close>\<close>

definition makeKeyValueTag :: "string \<Rightarrow> string \<Rightarrow> string" where
  "makeKeyValueTag key v = KEY_VALUE_TAG @ '':'' @ key @ '':'' @ asciiToHex v"

definition makeKeyValueTagPrefix :: "string \<Rightarrow> string" where
  "makeKeyValueTagPrefix key = makeKeyValueTag key ''''"

definition startsWithCaseInsensitive :: "string \<Rightarrow> string \<Rightarrow> bool" where
  "startsWithCaseInsensitive text prefix =
     (toLowerCase (take (length prefix) text) = toLowerCase prefix)"

datatype InstallState = UNKNOWN | SUCCESS | ERROR | DELETED

record NetworkInfo =
  network_type :: string
  ip_address :: string

record DropletInfo =
  droplet_id :: nat
  status :: string
  tags :: "string list"
  networks_v4 :: "NetworkInfo list"

text \<open>
  The fields of a \<open>DigitalOceanServer\<close> that the install logic reads and writes. The
  management API URL and the trusted certificates belong to the parent class and to the
  platform (\<open>setManagementApiUrl\<close>, \<open>trustCertificate\<close>); \<open>emitted\<close> collects what
  the event queue was asked to emit and \<open>console\<close> what was printed.
\<close>

record DigitalOceanServer =
  installState :: InstallState
  dropletInfo :: DropletInfo
  managementApiUrl :: "string option"
  trustedCertificates :: "string list"
  emitted :: "string list"
  console :: "LogEntry list"

text \<open>
  The loop of \<open>getTagValue\<close> over the droplet's tags: the first tag with the prefix
  decides; a payload that \<open>hexToString\<close> rejects gives \<open>null\<close>, after the
  \<open>catch\<close> block has printed its line, and running off the end of the loop gives
  \<open>undefined\<close>. The second component is what the call prints.
\<close>

fun getTagValueLoop :: "string \<Rightarrow> string list \<Rightarrow> JsString \<times> LogEntry list" where
  "getTagValueLoop tagPrefix [] = (Undefined, [])"
| "getTagValueLoop tagPrefix (tag # rest) =
     (if \<not> startsWithCaseInsensitive tag tagPrefix then getTagValueLoop tagPrefix rest
      else (case hexToString (drop (length tagPrefix) tag) of
              Some s \<Rightarrow> (Str s, [])
            | None \<Rightarrow> (Null, [ConsoleError ''error decoding hex string''])))"

definition getTagValue :: "string \<Rightarrow> DropletInfo \<Rightarrow> JsString \<times> LogEntry list" where
  "getTagValue key d = getTagValueLoop (makeKeyValueTagPrefix key) (tags d)"

text \<open>The loop of \<open>ipv4Address\<close> over \<open>dropletInfo.networks.v4\<close>.\<close>

fun ipv4AddressLoop :: "NetworkInfo list \<Rightarrow> JsString" where
  "ipv4AddressLoop [] = Undefined"
| "ipv4AddressLoop (network # rest) =
     (if network_type network = ''public'' then Str (ip_address network)
      else ipv4AddressLoop rest)"

definition ipv4Address :: "DropletInfo \<Rightarrow> JsString" where
  "ipv4Address d = ipv4AddressLoop (networks_v4 d)"

datatype Thrown = JsError string

text \<open>
  \<open>getManagementApiAddress\<close>: the address or the exception, and what its calls of
  \<open>getTagValue\<close> printed up to there.
\<close>

definition getManagementApiAddress :: "DropletInfo \<Rightarrow> (Thrown + string) \<times> LogEntry list" where
  "getManagementApiAddress d =
     (let slash = (\<lambda>a. if \<not> endsWith a ''/'' then a @ ''/'' else a)
      in case getTagValue API_URL_TAG d of
           (apiAddress, printed1) \<Rightarrow>
             if \<not> truthy apiAddress then
               (case getTagValue DEPRECATED_API_PORT_TAG d of
                  (portNumber, printed2) \<Rightarrow>
                    if \<not> truthy portNumber
                    then (Inl (JsError ''Could not get API port number''),
                          printed1 @ printed2)
                    else if \<not> truthy (ipv4Address d)
                    then (Inl (JsError ''API hostname not set''), printed1 @ printed2)
                    else
                      (let a = ''https://'' @ display (ipv4Address d) @ '':''
                                 @ display portNumber @ ''/''
                       in case getTagValue DEPRECATED_API_PREFIX_TAG d of
                            (apiPrefix, printed3) \<Rightarrow>
                              (Inr (slash (if truthy apiPrefix
                                           then a @ display apiPrefix @ ''/'' else a)),
                               printed1 @ printed2 @ printed3)))
             else (Inr (slash (display apiAddress)), printed1))"

text \<open>
  \<open>getCertificateFingerprint\<close>: the fingerprint in base64 or the exception, and what was
  printed.
\<close>

definition getCertificateFingerprint ::
  "DropletInfo \<Rightarrow> (Thrown + string) \<times> LogEntry list" where
  "getCertificateFingerprint d =
     (case getTagValue CERTIFICATE_FINGERPRINT_TAG d of
        (fingerprint, printed) \<Rightarrow>
          if truthy fingerprint
          then (Inr (btoa (display fingerprint)),
                printed @ [ConsoleLog (display fingerprint)])
          else (Inl (JsError ''certificate fingerprint unavailable''), printed))"

text \<open>
  \<open>setApiUrlAndCertificate\<close>: the \<open>try\<close> block, with \<open>false\<close> for whatever it
  catches. What was printed before the exception stays printed. The two exceptions are
  those of \<open>getCertificateFingerprint\<close> and \<open>getManagementApiAddress\<close>;
  \<open>trustCertificate\<close> and \<open>setManagementApiUrl\<close> record their argument.
\<close>

definition setApiUrlAndCertificate :: "DigitalOceanServer \<Rightarrow> bool \<times> DigitalOceanServer" where
  "setApiUrlAndCertificate s =
     (case getCertificateFingerprint (dropletInfo s) of
        (Inl e, printed1) \<Rightarrow> (False, s\<lparr>console := console s @ printed1\<rparr>)
      | (Inr certificateFingerprint, printed1) \<Rightarrow>
          (case getManagementApiAddress (dropletInfo s) of
             (Inl e, printed2) \<Rightarrow> (False, s\<lparr>console := console s @ printed1 @ printed2\<rparr>)
           | (Inr apiAddress, printed2) \<Rightarrow>
               (True,
                s\<lparr>console := console s @ printed1 @ printed2
                              @ [ConsoleLog certificateFingerprint],
                  trustedCertificates := trustedCertificates s @ [certificateFingerprint],
                  managementApiUrl := Some apiAddress\<rparr>)))"

definition TIMEOUT_MS :: int where
  "TIMEOUT_MS = 5 * 60 * 1000"

text \<open>
  \<open>updateInstallState\<close>, the closure inside \<open>refreshInstallState\<close>: \<open>startTimestamp\<close>
  is the time its poller started and \<open>now\<close> what \<open>Date.now()\<close> returns, in
  milliseconds. The install-error tag is read once for the test and once more for the
  line that is printed.
\<close>

definition updateInstallState :: "int \<Rightarrow> int \<Rightarrow> DigitalOceanServer \<Rightarrow> DigitalOceanServer" where
  "updateInstallState startTimestamp now s =
     (if installState s \<noteq> UNKNOWN then s
      else
        (case getTagValue INSTALL_ERROR_TAG (dropletInfo s) of
           (errorTag, printed1) \<Rightarrow>
             if truthy errorTag then
               (case getTagValue INSTALL_ERROR_TAG (dropletInfo s) of
                  (errorTag2, printed2) \<Rightarrow>
                    s\<lparr>console := console s @ printed1 @ printed2
                                  @ [ConsoleError (''error tag: '' @ display errorTag2)],
                      installState := ERROR\<rparr>)
             else if now - startTimestamp \<ge> TIMEOUT_MS then
               s\<lparr>console := console s @ printed1
                             @ [ConsoleError ''hit timeout while waiting for installation''],
                 installState := ERROR\<rparr>
             else
               (case setApiUrlAndCertificate (s\<lparr>console := console s @ printed1\<rparr>) of
                  (True, s1) \<Rightarrow>
                    s1\<lparr>console := console s1 @
                         [ConsoleInfo
                            ''digitalocean_server: Successfully found API and cert tags''],
                       installState := SUCCESS\<rparr>
                | (False, s1) \<Rightarrow> s1)))"

text \<open>
  \<open>refreshDropletInfo\<close>, once \<open>getDroplet\<close> has answered with \<open>newDropletInfo\<close>.
\<close>

definition refreshDropletInfo :: "DropletInfo \<Rightarrow> DigitalOceanServer \<Rightarrow> DigitalOceanServer" where
  "refreshDropletInfo newDropletInfo s =
     (let oldDropletInfo = dropletInfo s;
          s1 = s\<lparr>dropletInfo := newDropletInfo\<rparr>
      in if status newDropletInfo \<noteq> status oldDropletInfo
            \<and> status newDropletInfo = ''active''
         then s1\<lparr>emitted := emitted s1 @ [''server-active'']\<rparr>
         else s1)"

text \<open>
  \<open>refreshInstallState\<close> up to the point where it would start its interval: the
  second component says whether the interval is started.
\<close>

definition refreshInstallState ::
  "int \<Rightarrow> int \<Rightarrow> DigitalOceanServer \<Rightarrow> DigitalOceanServer \<times> bool" where
  "refreshInstallState startTimestamp now s =
     (let s1 = updateInstallState startTimestamp now s
      in (s1, installState s1 = UNKNOWN))"

text \<open>
  The interval callback of \<open>refreshInstallState\<close> runs in two turns of the event loop.
  The first turn clears the interval when the state is known and asks for the droplet
  otherwise; \<open>True\<close> is a cleared interval.
\<close>

definition refreshInstallStateTick :: "DigitalOceanServer \<Rightarrow> bool" where
  "refreshInstallStateTick s = (installState s \<noteq> UNKNOWN)"

text \<open>
  The second turn is the continuation of \<open>refreshDropletInfo()\<close>; other code may have
  run in between. A failed request has no continuation, the next tick tries again.
\<close>

definition refreshInstallStateThen ::
  "int \<Rightarrow> int \<Rightarrow> DropletInfo \<Rightarrow> DigitalOceanServer \<Rightarrow> DigitalOceanServer \<times> bool" where
  "refreshInstallStateThen startTimestamp now newDropletInfo s =
     (let s1 = updateInstallState startTimestamp now (refreshDropletInfo newDropletInfo s)
      in (s1, installState s1 \<noteq> UNKNOWN))"

definition onDelete :: "DigitalOceanServer \<Rightarrow> DigitalOceanServer" where
  "onDelete s = s\<lparr>installState := DELETED\<rparr>"

text \<open>The synchronous part of \<open>waitOnInstall\<close>, before the promise is made.\<close>

definition waitOnInstall ::
  "bool \<Rightarrow> int \<Rightarrow> int \<Rightarrow> DigitalOceanServer \<Rightarrow> DigitalOceanServer" where
  "waitOnInstall resetTimeout startTimestamp now s =
     (if resetTimeout
      then fst (refreshInstallState startTimestamp now (s\<lparr>installState := UNKNOWN\<rparr>))
      else s)"

text \<open>The constructor: the field initialisers, then \<open>waitOnInstall(true)\<close>.\<close>

definition newDigitalOceanServer :: "DropletInfo \<Rightarrow> int \<Rightarrow> int \<Rightarrow> DigitalOceanServer" where
  "newDigitalOceanServer d startTimestamp now =
     waitOnInstall True startTimestamp now
       \<lparr>installState = UNKNOWN, dropletInfo = d, managementApiUrl = None,
        trustedCertificates = [], emitted = [],
        console = [ConsoleInfo ''DigitalOceanServer created'']\<rparr>"

text \<open>
  Everything that writes \<open>installState\<close> after construction, as events: a call of
  \<open>waitOnInstall\<close>, an answer to a poller's droplet request, and the delete callback.
\<close>

datatype Event =
    WaitOnInstall bool int int
  | DropletRefreshed int int DropletInfo
  | Deleted

fun step :: "DigitalOceanServer \<Rightarrow> Event \<Rightarrow> DigitalOceanServer" where
  "step s (WaitOnInstall resetTimeout startTimestamp now) =
     waitOnInstall resetTimeout startTimestamp now s"
| "step s (DropletRefreshed startTimestamp now newDropletInfo) =
     fst (refreshInstallStateThen startTimestamp now newDropletInfo s)"
| "step s Deleted = onDelete s"

definition run :: "DigitalOceanServer \<Rightarrow> Event list \<Rightarrow> DigitalOceanServer" where
  "run s events = foldl step s events"

text \<open>
  The promise of \<open>waitOnInstall\<close>. Its interval callback reads \<open>installState\<close>; on
  \<open>SUCCESS\<close> it asks \<open>isHealthy()\<close>, a method of the parent class, whose answer is
  \<open>Some b\<close> when its promise resolves to \<open>b\<close> and \<open>None\<close> when it does not resolve.
  The callback yields the settlement, whether the interval was cleared, and what was
  printed.
\<close>

datatype InstallError = UnreachableServerError | ServerInstallFailedError | DeletedServerError

datatype Settlement = Pending | Fulfilled | Rejected InstallError

fun waitOnInstallTick ::
  "InstallState \<Rightarrow> bool option \<Rightarrow> Settlement \<times> bool \<times> LogEntry list" where
  "waitOnInstallTick UNKNOWN isHealthy = (Pending, False, [])"
| "waitOnInstallTick SUCCESS isHealthy =
     (case isHealthy of
        Some True \<Rightarrow> (Fulfilled, True, [])
      | Some False \<Rightarrow>
          (Rejected UnreachableServerError, True,
           [ConsoleError
              ''digitalocean_server: Server is unreachable, possibly due to firewall.''])
      | None \<Rightarrow> (Pending, True, []))"
| "waitOnInstallTick ERROR isHealthy = (Rejected ServerInstallFailedError, True, [])"
| "waitOnInstallTick DELETED isHealthy = (Rejected DeletedServerError, True, [])"

text \<open>
  The interval at work: \<open>observed\<close> lists the value of \<open>installState\<close> at each
  successive firing. Firings stop once the interval is cleared.
\<close>

fun waitOnInstallPoll :: "InstallState list \<Rightarrow> bool option \<Rightarrow> Settlement" where
  "waitOnInstallPoll [] isHealthy = Pending"
| "waitOnInstallPoll (st # observed) isHealthy =
     (case waitOnInstallTick st isHealthy of
        (outcome, cleared, printed) \<Rightarrow>
          if cleared then outcome else waitOnInstallPoll observed isHealthy)"

section \<open>model/digitalocean_account\<close>

definition SHADOWBOX_TAG :: string where
  "SHADOWBOX_TAG = ''shadowbox''"

definition MACHINE_SIZE :: string where
  "MACHINE_SIZE = ''s-1vcpu-1gb''"

record DigitalOceanLocation =
  regionId :: string
  dataCenterIds :: "string list"

text \<open>The fields of the provider's \<open>RegionInfo\<close> that \<open>listLocations\<close> reads.\<close>

record RegionInfo =
  slug :: string
  available :: bool
  sizes :: "string list"

text \<open>\<open>slug.substr(0, 3).toLowerCase()\<close>\<close>

definition GetCityId :: "string \<Rightarrow> string" where
  "GetCityId s = toLowerCase (take 3 s)"

text \<open>
  \<open>location.dataCenterIds.push(region.slug)\<close> on the entry that \<open>locations.find\<close>
  returned: the first entry with the region id changes in place.
\<close>

fun pushDataCenterId ::
  "string \<Rightarrow> string \<Rightarrow> DigitalOceanLocation list \<Rightarrow> DigitalOceanLocation list" where
  "pushDataCenterId rid dc [] = []"
| "pushDataCenterId rid dc (entry # entries) =
     (if regionId entry = rid
      then entry\<lparr>dataCenterIds := dataCenterIds entry @ [dc]\<rparr> # entries
      else entry # pushDataCenterId rid dc entries)"

text \<open>The body of \<open>regionInfos.forEach\<close>, on the locations collected so far.\<close>

definition listLocationsEach ::
  "DigitalOceanLocation list \<Rightarrow> RegionInfo \<Rightarrow> DigitalOceanLocation list" where
  "listLocationsEach locations region =
     (let rid = GetCityId (slug region)
      in if available region \<and> MACHINE_SIZE \<in> set (sizes region) then
           (case find (\<lambda>entry. regionId entry = rid) locations of
              Some location \<Rightarrow> pushDataCenterId rid (slug region) locations
            | None \<Rightarrow>
                locations @
                  [\<lparr>regionId = GetCityId (slug region), dataCenterIds = [slug region]\<rparr>])
         else locations)"

definition listLocationsOf :: "RegionInfo list \<Rightarrow> DigitalOceanLocation list" where
  "listLocationsOf regionInfos = foldl listLocationsEach [] regionInfos"

text \<open>
  The errors that \<open>processError\<close> tells apart: an \<open>HttpError\<close> with its status code
  and message, a \<open>NetworkError\<close>, and any other \<open>Error\<close> with its message.
\<close>

datatype ApiError = HttpError int string | NetworkError | OtherError string

text \<open>
  What a \<open>DigitalOceanAccount\<close> does to the outside: the events emitted on
  \<open>domainEvents\<close> and the lines printed.
\<close>

record DigitalOceanAccount =
  domainEvents :: "string list"
  accountConsole :: "LogEntry list"

definition EVENT_ACCOUNT_CONNECTIVITY_ISSUE :: string where
  "EVENT_ACCOUNT_CONNECTIVITY_ISSUE = ''account-connectivity-issue''"

text \<open>
  \<open>processError\<close>. The status code is an integer; \<open>numberToString\<close> is what the
  template literal prints for it.
\<close>

fun processError ::
  "(int \<Rightarrow> string) \<Rightarrow> ApiError \<Rightarrow> DigitalOceanAccount \<Rightarrow> DigitalOceanAccount" where
  "processError numberToString (HttpError statusCode message) a =
     (if statusCode = 401
      then a\<lparr>domainEvents := domainEvents a @ [EVENT_ACCOUNT_CONNECTIVITY_ISSUE]\<rparr>
      else a\<lparr>accountConsole := accountConsole a @
             [ConsoleError (''DigitalOcean API request failed with status '' @ [CHR 0x0A]
                @ ''              '' @ numberToString statusCode @ '' and message: ''
                @ message)]\<rparr>)"
| "processError numberToString NetworkError a =
     a\<lparr>domainEvents := domainEvents a @ [EVENT_ACCOUNT_CONNECTIVITY_ISSUE]\<rparr>"
| "processError numberToString (OtherError message) a =
     a\<lparr>accountConsole := accountConsole a @
        [ConsoleError (''DigitalOceanSession error: '' @ message)]\<rparr>"

text \<open>
  \<open>listLocations\<close>, given what \<open>getRegionInfo\<close> answered: the locations, or
  \<open>undefined\<close> (\<open>None\<close>) once \<open>processError\<close> has dealt with the error.
\<close>

definition listLocations ::
  "(int \<Rightarrow> string) \<Rightarrow> ApiError + RegionInfo list \<Rightarrow> DigitalOceanAccount
     \<Rightarrow> DigitalOceanLocation list option \<times> DigitalOceanAccount" where
  "listLocations numberToString response a =
     (case response of
        Inr regionInfos \<Rightarrow> (Some (listLocationsOf regionInfos), a)
      | Inl error \<Rightarrow> (None, processError numberToString error a))"

text \<open>The character class of the token pattern: \<open>[A-Za-z0-9_\/-]\<close>.\<close>

definition tokenChar :: "char \<Rightarrow> bool" where
  "tokenChar c =
     (let n = (of_char c :: nat)
      in (65 \<le> n \<and> n \<le> 90) \<or> (97 \<le> n \<and> n \<le> 122) \<or> (48 \<le> n \<and> n \<le> 57)
         \<or> c = CHR ''_'' \<or> c = CHR ''/'' \<or> c = CHR ''-'')"

text \<open>\<open>/^[A-Za-z0-9_\/-]+$/.test(s)\<close>: the whole string, one character or more.\<close>

definition patternTest :: "string \<Rightarrow> bool" where
  "patternTest s = (s \<noteq> [] \<and> list_all tokenChar s)"

definition sanitizeDigitalOceanToken :: "string \<Rightarrow> Thrown + string" where
  "sanitizeDigitalOceanToken input =
     (let sanitizedInput = trim input
      in if \<not> patternTest sanitizedInput then Inl (JsError ''Invalid DigitalOcean Token'')
         else Inr sanitizedInput)"

text \<open>
  \<open>getInstallScript\<close>. \<open>SCRIPT\<close> is the constant \<open>do_install_script.SCRIPT\<close>, which
  is not among the sources and is taken as a parameter. An optional argument is \<open>None\<close>
  when it is left out (\<open>undefined\<close>); the conditionals test truthiness, which a
  non-empty string and a number other than 0 have. The number of seconds is an integer,
  and \<open>numberToString\<close> is what the template literal prints for it. The parameter
  \<open>image\<close> is called \<open>imageId\<close> here.
\<close>

definition getInstallScript ::
  "string \<Rightarrow> (int \<Rightarrow> string) \<Rightarrow> string \<Rightarrow> string \<Rightarrow> string option \<Rightarrow> int option
     \<Rightarrow> string option \<Rightarrow> string option \<Rightarrow> Thrown + string" where
  "getInstallScript SCRIPT numberToString accessToken name imageId watchtowerRefreshSeconds
       metricsUrl sentryApiUrl =
     (case sanitizeDigitalOceanToken accessToken of
        Inl e \<Rightarrow> Inl e
      | Inr sanitizedAccessToken \<Rightarrow>
          Inr (''#!/bin/bash -eu'' @ [CHR 0x0A]
               @ ''export DO_ACCESS_TOKEN='' @ sanitizedAccessToken @ [CHR 0x0A]
               @ (case imageId of
                    Some i \<Rightarrow> if i \<noteq> [] then ''export SB_IMAGE='' @ i @ [CHR 0x0A] else []
                  | None \<Rightarrow> [])
               @ (case watchtowerRefreshSeconds of
                    Some n \<Rightarrow>
                      if n \<noteq> 0
                      then ''export WATCHTOWER_REFRESH_SECONDS='' @ numberToString n
                           @ [CHR 0x0A]
                      else []
                  | None \<Rightarrow> [])
               @ (case sentryApiUrl of
                    Some u \<Rightarrow>
                      if u \<noteq> []
                      then ''export SENTRY_API_URL='' @ [CHR 0x22] @ u @ [CHR 0x22, CHR 0x0A]
                      else []
                  | None \<Rightarrow> [])
               @ (case metricsUrl of
                    Some u \<Rightarrow>
                      if u \<noteq> [] then ''export SB_METRICS_URL='' @ u @ [CHR 0x0A] else []
                  | None \<Rightarrow> [])
               @ ''export SB_DEFAULT_SERVER_NAME='' @ [CHR 0x22] @ name
               @ [CHR 0x22, CHR 0x0A] @ SCRIPT))"

text \<open>
  The fields of \<open>ShadowboxSettings\<close> that \<open>createServer\<close> reads; the interface is
  not among the sources, and each field is a string or \<open>undefined\<close>.
\<close>

record ShadowboxSettings =
  containerImageId :: "string option"
  metricsUrl :: "string option"
  sentryApiUrl :: "string option"

text \<open>
  The one call of \<open>getInstallScript\<close>, in \<open>createServer\<close>: the number of seconds is
  30 when there is a container image and left out otherwise.
\<close>

definition installCommand ::
  "string \<Rightarrow> (int \<Rightarrow> string) \<Rightarrow> string \<Rightarrow> string \<Rightarrow> ShadowboxSettings
     \<Rightarrow> Thrown + string" where
  "installCommand SCRIPT numberToString accessToken name shadowboxSettings =
     (let watchtowerRefreshSeconds =
            (case containerImageId shadowboxSettings of
               Some i \<Rightarrow> if i \<noteq> [] then Some 30 else None
             | None \<Rightarrow> None)
      in getInstallScript SCRIPT numberToString accessToken name
           (containerImageId shadowboxSettings) watchtowerRefreshSeconds
           (metricsUrl shadowboxSettings) (sentryApiUrl shadowboxSettings))"

section \<open>The install state\<close>

lemma InstallState_UNIV: "(UNIV :: InstallState set) = {UNKNOWN, SUCCESS, ERROR, DELETED}"
  using InstallState.exhaust by auto

lemma installState_setApiUrlAndCertificate:
  "installState (snd (setApiUrlAndCertificate s)) = installState s"
  by (auto simp: setApiUrlAndCertificate_def split: sum.splits prod.splits)

lemma installState_updateInstallState_cases:
  "installState (updateInstallState startTimestamp now s) = installState s
   \<or> (installState s = UNKNOWN
       \<and> installState (updateInstallState startTimestamp now s) \<in> {SUCCESS, ERROR})"
proof (cases "getTagValue INSTALL_ERROR_TAG (dropletInfo s)")
  case (Pair errorTag printed)
  show ?thesis
    using Pair installState_setApiUrlAndCertificate [of "s\<lparr>console := console s @ printed\<rparr>"]
    by (cases "setApiUrlAndCertificate (s\<lparr>console := console s @ printed\<rparr>)")
      (auto simp: updateInstallState_def split: bool.splits)
qed

text \<open>
  C1. \<open>InstallState\<close> has exactly the four values \<open>UNKNOWN\<close>, \<open>SUCCESS\<close>, \<open>ERROR\<close>
  and \<open>DELETED\<close>, all different, and every operation that writes the field keeps it
  among them: whatever events a server goes through after its construction, its install
  state is one of the four. More precisely, \<open>updateInstallState\<close> keeps the value or
  moves from \<open>UNKNOWN\<close> to \<open>SUCCESS\<close> or \<open>ERROR\<close>, \<open>waitOnInstall(true)\<close> ends in
  \<open>UNKNOWN\<close>, \<open>SUCCESS\<close> or \<open>ERROR\<close>, and \<open>onDelete\<close> ends in \<open>DELETED\<close>.
\<close>

theorem installState_four_values:
  "(UNIV :: InstallState set) = {UNKNOWN, SUCCESS, ERROR, DELETED}
   \<and> distinct [UNKNOWN, SUCCESS, ERROR, DELETED]
   \<and> installState (run (newDigitalOceanServer d t0 t1) events)
        \<in> {UNKNOWN, SUCCESS, ERROR, DELETED}
   \<and> installState (updateInstallState startTimestamp now s)
        \<in> {installState s} \<union> (if installState s = UNKNOWN then {SUCCESS, ERROR} else {})
   \<and> installState (waitOnInstall True startTimestamp now s) \<in> {UNKNOWN, SUCCESS, ERROR}
   \<and> installState (onDelete s) = DELETED"
proof -
  have "installState (run (newDigitalOceanServer d t0 t1) events)
        \<in> {UNKNOWN, SUCCESS, ERROR, DELETED}"
    using InstallState_UNIV by blast
  moreover have upd: "installState (updateInstallState startTimestamp now x)
        \<in> {installState x} \<union> (if installState x = UNKNOWN then {SUCCESS, ERROR} else {})"
    for x
    using installState_updateInstallState_cases [of startTimestamp now x] by auto
  moreover have "installState (waitOnInstall True startTimestamp now s)
        \<in> {UNKNOWN, SUCCESS, ERROR}"
    using upd [of "s\<lparr>installState := UNKNOWN\<rparr>"]
    by (auto simp: waitOnInstall_def refreshInstallState_def Let_def)
  moreover have "installState (onDelete s) = DELETED"
    by (simp add: onDelete_def)
  moreover have "distinct [UNKNOWN, SUCCESS, ERROR, DELETED]"
    by simp
  ultimately show ?thesis
    using InstallState_UNIV by blast
qed

text \<open>
  C3. Timeout handling: in a poll step that finds \<open>installState\<close> \<open>UNKNOWN\<close> when at
  least \<open>TIMEOUT_MS\<close>, five minutes, have passed since \<open>refreshInstallState\<close> started,
  \<open>updateInstallState\<close> sets \<open>installState\<close> to \<open>ERROR\<close>. This holds for every
  droplet, so in particular for one without an install-error tag.
\<close>

theorem updateInstallState_timeout:
  "installState s = UNKNOWN \<Longrightarrow> now - startTimestamp \<ge> TIMEOUT_MS \<Longrightarrow>
     TIMEOUT_MS = 5 * 60 * 1000
     \<and> installState (updateInstallState startTimestamp now s) = ERROR"
  by (auto simp: updateInstallState_def TIMEOUT_MS_def split: prod.splits)

theorem updateInstallState_timeout_witness:
  "installState \<lparr>installState = UNKNOWN,
       dropletInfo = \<lparr>droplet_id = 7, status = ''new'', tags = [''shadowbox''],
                      networks_v4 = []\<rparr>,
       managementApiUrl = None, trustedCertificates = [], emitted = [], console = []\<rparr>
     = UNKNOWN
   \<and> (300000 :: int) - 0 \<ge> TIMEOUT_MS
   \<and> getTagValue INSTALL_ERROR_TAG
        \<lparr>droplet_id = 7, status = ''new'', tags = [''shadowbox''], networks_v4 = []\<rparr>
       = (Undefined, [])
   \<and> installState (updateInstallState 0 300000
        \<lparr>installState = UNKNOWN,
         dropletInfo = \<lparr>droplet_id = 7, status = ''new'', tags = [''shadowbox''],
                        networks_v4 = []\<rparr>,
         managementApiUrl = None, trustedCertificates = [], emitted = [], console = []\<rparr>)
     = ERROR"
proof -
  have notag: "getTagValue INSTALL_ERROR_TAG
        \<lparr>droplet_id = 7, status = ''new'', tags = [''shadowbox''], networks_v4 = []\<rparr>
       = (Undefined, [])"
    by (simp add: getTagValue_def makeKeyValueTagPrefix_def makeKeyValueTag_def
        KEY_VALUE_TAG_def INSTALL_ERROR_TAG_def asciiToHex_def
        startsWithCaseInsensitive_def toLowerCase_def toLowerCase_char_def)
  have late: "(300000 :: int) - 0 \<ge> TIMEOUT_MS"
    by (simp add: TIMEOUT_MS_def)
  show ?thesis
    using notag late
      updateInstallState_timeout [of "\<lparr>installState = UNKNOWN,
         dropletInfo = \<lparr>droplet_id = 7, status = ''new'', tags = [''shadowbox''],
                        networks_v4 = []\<rparr>,
         managementApiUrl = None, trustedCertificates = [], emitted = [], console = []\<rparr>"
        300000 0]
    by (simp add: TIMEOUT_MS_def)
qed

text \<open>
  C4. Race avoidance between competing pollers: once \<open>installState\<close> is \<open>SUCCESS\<close>,
  \<open>ERROR\<close> or \<open>DELETED\<close>, \<open>updateInstallState\<close> changes nothing, whatever the
  droplet's tags and whatever time has passed; and the continuation of a poller's droplet
  request, which stores the new droplet and then runs \<open>updateInstallState\<close>, leaves
  \<open>installState\<close> as it was.
\<close>

theorem updateInstallState_known_unchanged:
  "installState s \<in> {SUCCESS, ERROR, DELETED} \<Longrightarrow>
     updateInstallState startTimestamp now s = s
     \<and> installState (updateInstallState startTimestamp now s) = installState s
     \<and> installState (fst (refreshInstallStateThen startTimestamp now newDropletInfo s))
         = installState s"
  by (auto simp: updateInstallState_def refreshInstallStateThen_def refreshDropletInfo_def
      Let_def)

theorem updateInstallState_known_unchanged_witness:
  "installState \<lparr>installState = SUCCESS,
       dropletInfo = \<lparr>droplet_id = 7, status = ''active'',
                      tags = [''kv:install-error:6661696c''], networks_v4 = []\<rparr>,
       managementApiUrl = None, trustedCertificates = [], emitted = [], console = []\<rparr>
     \<in> {SUCCESS, ERROR, DELETED}
   \<and> installState (updateInstallState 0 900000
        \<lparr>installState = SUCCESS,
         dropletInfo = \<lparr>droplet_id = 7, status = ''active'',
                        tags = [''kv:install-error:6661696c''], networks_v4 = []\<rparr>,
         managementApiUrl = None, trustedCertificates = [], emitted = [], console = []\<rparr>)
     = SUCCESS"
  using updateInstallState_known_unchanged [of "\<lparr>installState = SUCCESS,
         dropletInfo = \<lparr>droplet_id = 7, status = ''active'',
                        tags = [''kv:install-error:6661696c''], networks_v4 = []\<rparr>,
         managementApiUrl = None, trustedCertificates = [], emitted = [], console = []\<rparr>"
      0 900000]
  by simp

section \<open>The promise of waitOnInstall\<close>

lemma waitOnInstallPoll_skip_UNKNOWN:
  "waitOnInstallPoll (replicate n UNKNOWN @ observed) isHealthy
     = waitOnInstallPoll observed isHealthy"
  by (induction n) simp_all

lemma waitOnInstallPoll_Fulfilled:
  "waitOnInstallPoll observed isHealthy = Fulfilled \<Longrightarrow>
     (\<exists>n later. observed = replicate n UNKNOWN @ SUCCESS # later) \<and> isHealthy = Some True"
proof (induction observed)
  case Nil
  then show ?case by simp
next
  case (Cons st observed)
  show ?case
  proof (cases st)
    case UNKNOWN
    with Cons obtain n later
      where "observed = replicate n UNKNOWN @ SUCCESS # later" and h: "isHealthy = Some True"
      by auto
    then have "st # observed = replicate (Suc n) UNKNOWN @ SUCCESS # later"
      using UNKNOWN by simp
    then show ?thesis using h by blast
  next
    case SUCCESS
    then have "st # observed = replicate 0 UNKNOWN @ SUCCESS # observed"
      by simp
    moreover have "isHealthy = Some True"
      using Cons.prems SUCCESS by (auto split: option.splits bool.splits)
    ultimately show ?thesis by blast
  next
    case ERROR
    with Cons.prems show ?thesis by simp
  next
    case DELETED
    with Cons.prems show ?thesis by simp
  qed
qed

text \<open>
  C2. \<open>waitOnInstall\<close> settles by the first install state other than \<open>UNKNOWN\<close> that
  its interval sees. It fulfills exactly when that state is \<open>SUCCESS\<close> and the server
  reports healthy; it rejects with \<open>UnreachableServerError\<close> when the state is
  \<open>SUCCESS\<close> and the server reports not healthy, with \<open>ServerInstallFailedError\<close>
  when it is \<open>ERROR\<close> and with \<open>DeletedServerError\<close> when it is \<open>DELETED\<close>; as long
  as every firing sees \<open>UNKNOWN\<close> the promise stays pending.
\<close>

theorem waitOnInstall_settles:
  "waitOnInstallPoll (replicate n UNKNOWN) isHealthy = Pending
   \<and> waitOnInstallPoll (replicate n UNKNOWN @ SUCCESS # later) (Some True) = Fulfilled
   \<and> waitOnInstallPoll (replicate n UNKNOWN @ SUCCESS # later) (Some False)
       = Rejected UnreachableServerError
   \<and> waitOnInstallPoll (replicate n UNKNOWN @ ERROR # later) isHealthy
       = Rejected ServerInstallFailedError
   \<and> waitOnInstallPoll (replicate n UNKNOWN @ DELETED # later) isHealthy
       = Rejected DeletedServerError
   \<and> ((waitOnInstallPoll observed isHealthy = Fulfilled)
        = ((\<exists>k rest. observed = replicate k UNKNOWN @ SUCCESS # rest)
           \<and> isHealthy = Some True))"
proof -
  have "waitOnInstallPoll (replicate n UNKNOWN) isHealthy = Pending"
    using waitOnInstallPoll_skip_UNKNOWN [of n "[]" isHealthy] by simp
  moreover have "(waitOnInstallPoll observed isHealthy = Fulfilled)
        = ((\<exists>k rest. observed = replicate k UNKNOWN @ SUCCESS # rest)
           \<and> isHealthy = Some True)"
    using waitOnInstallPoll_Fulfilled [of observed isHealthy]
    by (auto simp: waitOnInstallPoll_skip_UNKNOWN)
  ultimately show ?thesis
    by (simp add: waitOnInstallPoll_skip_UNKNOWN)
qed

theorem waitOnInstall_settles_witness:
  "waitOnInstallPoll [UNKNOWN, UNKNOWN] (Some True) = Pending
   \<and> waitOnInstallPoll [UNKNOWN, UNKNOWN, SUCCESS, DELETED] (Some True) = Fulfilled
   \<and> waitOnInstallPoll [UNKNOWN, UNKNOWN, ERROR, DELETED] (Some True)
       = Rejected ServerInstallFailedError"
  using waitOnInstall_settles [of 2 "Some True" "[DELETED]" "[]"]
  by (simp add: numeral_2_eq_2)

section \<open>Errors of the DigitalOcean API\<close>

text \<open>
  C7. \<open>processError\<close> emits the event \<open>account-connectivity-issue\<close> if and only if
  the error is an \<open>HttpError\<close> with status code 401 or a \<open>NetworkError\<close>, and then
  prints nothing. For any other error, an \<open>HttpError\<close> with another status among
  them, it emits nothing and prints one error line.
\<close>

theorem processError_event:
  "((domainEvents (processError numberToString e a) \<noteq> domainEvents a)
      = ((\<exists>message. e = HttpError 401 message) \<or> e = NetworkError))
   \<and> (if (\<exists>message. e = HttpError 401 message) \<or> e = NetworkError
       then domainEvents (processError numberToString e a)
              = domainEvents a @ [''account-connectivity-issue'']
            \<and> accountConsole (processError numberToString e a) = accountConsole a
       else domainEvents (processError numberToString e a) = domainEvents a
            \<and> (\<exists>line. accountConsole (processError numberToString e a)
                         = accountConsole a @ [ConsoleError line]))"
  by (cases e) (auto simp: EVENT_ACCOUNT_CONNECTIVITY_ISSUE_def)

theorem processError_event_witness:
  "domainEvents (processError showInt (HttpError 401 ''Unauthorized'')
      \<lparr>domainEvents = [], accountConsole = []\<rparr>) = [''account-connectivity-issue'']
   \<and> domainEvents (processError showInt (HttpError 500 ''Server Error'')
      \<lparr>domainEvents = [], accountConsole = []\<rparr>) = []"
  using processError_event [of showInt "HttpError 401 ''Unauthorized''"
      "\<lparr>domainEvents = [], accountConsole = []\<rparr>"]
    processError_event [of showInt "HttpError 500 ''Server Error''"
      "\<lparr>domainEvents = [], accountConsole = []\<rparr>"]
  by simp

section \<open>Key-value tags\<close>

lemma char_of_eq_code: "(char_of (n :: nat) = c) = (n mod 256 = of_char c)"
  by (metis of_char_of char_of_char char_of_mod_256)

lemma eq_char_of_code: "(c = char_of (n :: nat)) = (n mod 256 = of_char c)"
  by (metis of_char_of char_of_char char_of_mod_256)

lemmas char_code = char_of_eq_code eq_char_of_code

lemma hexValue_hexDigit: "n < 16 \<Longrightarrow> hexValue (hexDigit n) = Some n"
  by (auto simp: hexValue_def hexDigit_def Let_def)

lemma char_of_hex_pair:
  "char_of (16 * ((of_char c :: nat) div 16) + (of_char c :: nat) mod 16) = c"
  by simp

lemma hexToString_asciiToHex: "hexToString (asciiToHex s) = Some s"
proof (induction s)
  case Nil
  then show ?case by (simp add: asciiToHex_def)
next
  case (Cons c s)
  have "(of_char c :: nat) mod 256 < 256"
    by (rule mod_less_divisor) simp
  then have "(of_char c :: nat) < 256"
    by simp
  then have hi: "(of_char c :: nat) div 16 < 16"
    by arith
  have lo: "(of_char c :: nat) mod 16 < 16"
    by simp
  have "asciiToHex (c # s)
      = hexDigit ((of_char c :: nat) div 16) # hexDigit ((of_char c :: nat) mod 16)
          # asciiToHex s"
    by (simp add: asciiToHex_def)
  then show ?case
    using Cons hexValue_hexDigit [OF hi] hexValue_hexDigit [OF lo] char_of_hex_pair [of c]
    by simp
qed

lemma hexToString_None_iff: "(hexToString payload = None) = (\<not> validHex payload)"
  by (induction payload rule: hexToString.induct)
    (auto simp: validHex_def split: option.splits)

lemma makeKeyValueTagPrefix_eq: "makeKeyValueTagPrefix key = ''kv:'' @ key @ '':''"
  by (simp add: makeKeyValueTagPrefix_def makeKeyValueTag_def KEY_VALUE_TAG_def
      asciiToHex_def)

lemma makeKeyValueTag_eq:
  "makeKeyValueTag key v = makeKeyValueTagPrefix key @ asciiToHex v"
  by (simp add: makeKeyValueTagPrefix_def makeKeyValueTag_def asciiToHex_def)

lemma startsWithCaseInsensitive_append: "startsWithCaseInsensitive (prefix @ rest) prefix"
  by (simp add: startsWithCaseInsensitive_def)

lemma getTagValueLoop_find:
  "getTagValueLoop tagPrefix tagList =
     (case find (\<lambda>tag. startsWithCaseInsensitive tag tagPrefix) tagList of
        None \<Rightarrow> (Undefined, [])
      | Some tag \<Rightarrow>
          (case hexToString (drop (length tagPrefix) tag) of
             Some s \<Rightarrow> (Str s, [])
           | None \<Rightarrow> (Null, [ConsoleError ''error decoding hex string''])))"
  by (induction tagList) simp_all

lemma getTagValueLoop_first:
  "\<forall>tag\<in>set before. \<not> startsWithCaseInsensitive tag tagPrefix \<Longrightarrow>
     getTagValueLoop tagPrefix (before @ (tagPrefix @ payload) # after)
       = (case hexToString payload of
            Some s \<Rightarrow> (Str s, [])
          | None \<Rightarrow> (Null, [ConsoleError ''error decoding hex string'']))"
  by (induction before) (simp_all add: startsWithCaseInsensitive_append)

text \<open>
  C10. \<open>getTagValue\<close> has a result for every key and every list of tags, so it never
  throws: the first tag that starts with \<open>kv:<key>:\<close>, compared without regard to
  case, decides. The result is the decoded payload of that tag when the payload is valid
  hex and \<open>null\<close> when it is not; it is \<open>undefined\<close> when no tag has the prefix.
  Only the \<open>null\<close> case prints, the line of the \<open>catch\<close> block.
\<close>

theorem getTagValue_total:
  "getTagValue key d =
     (case find (\<lambda>tag. startsWithCaseInsensitive tag (''kv:'' @ key @ '':'')) (tags d) of
        None \<Rightarrow> (Undefined, [])
      | Some tag \<Rightarrow>
          (case hexToString (drop (length (''kv:'' @ key @ '':'')) tag) of
             Some s \<Rightarrow> (Str s, [])
           | None \<Rightarrow> (Null, [ConsoleError ''error decoding hex string''])))
   \<and> (hexToString payload = None) = (\<not> validHex payload)"
  unfolding getTagValue_def getTagValueLoop_find makeKeyValueTagPrefix_eq
  using hexToString_None_iff [of payload] by blast

theorem getTagValue_total_witness:
  "getTagValue ''apiurl''
     \<lparr>droplet_id = 7, status = ''active'',
      tags = [''shadowbox'', ''KV:ApiUrl:6f6B'', ''kv:apiurl:00''], networks_v4 = []\<rparr>
     = (Str ''ok'', [])
   \<and> getTagValue ''apiurl''
     \<lparr>droplet_id = 7, status = ''active'',
      tags = [''shadowbox'', ''kv:apiurl:6g'', ''kv:apiurl:6f6b''], networks_v4 = []\<rparr>
     = (Null, [ConsoleError ''error decoding hex string''])
   \<and> getTagValue ''apiurl''
     \<lparr>droplet_id = 7, status = ''active'', tags = [''shadowbox''], networks_v4 = []\<rparr>
     = (Undefined, [])"
  using getTagValue_total [of "''apiurl''"
      "\<lparr>droplet_id = 7, status = ''active'',
        tags = [''shadowbox'', ''KV:ApiUrl:6f6B'', ''kv:apiurl:00''], networks_v4 = []\<rparr>" "[]"]
    getTagValue_total [of "''apiurl''"
      "\<lparr>droplet_id = 7, status = ''active'',
        tags = [''shadowbox'', ''kv:apiurl:6g'', ''kv:apiurl:6f6b''], networks_v4 = []\<rparr>" "[]"]
    getTagValue_total [of "''apiurl''"
      "\<lparr>droplet_id = 7, status = ''active'', tags = [''shadowbox''], networks_v4 = []\<rparr>"
      "[]"]
  by (simp add: startsWithCaseInsensitive_def toLowerCase_def toLowerCase_char_def
      hexValue_def char_code)

text \<open>
  C5, as the claim states it, fails when an earlier tag of the same key precedes the tag
  made by \<open>makeKeyValueTag\<close>: the droplet below carries the tag of the value \<open>b\<close>
  for the key \<open>apiurl\<close>, and \<open>getTagValue\<close> returns \<open>a\<close>.
\<close>

theorem getTagValue_roundtrip_counterexample:
  "makeKeyValueTag ''apiurl'' ''b''
     \<in> set (tags \<lparr>droplet_id = 7, status = ''active'',
                   tags = [''kv:apiurl:61'', ''kv:apiurl:62''], networks_v4 = []\<rparr>)
   \<and> getTagValue ''apiurl''
        \<lparr>droplet_id = 7, status = ''active'',
         tags = [''kv:apiurl:61'', ''kv:apiurl:62''], networks_v4 = []\<rparr>
       = (Str ''a'', [])
   \<and> Str ''a'' \<noteq> Str ''b''"
  by code_simp

text \<open>
  C5, amended. Key-value tag round trip: for every key and every ASCII value, if the
  droplet's tag list contains \<open>makeKeyValueTag(key, value)\<close>, the string
  \<open>kv:<key>:<hex-encoding of value>\<close>, and no tag before it starts with \<open>kv:<key>:\<close>
  (compared without regard to case), then \<open>getTagValue(key)\<close> returns the value.
\<close>

theorem getTagValue_roundtrip:
  "\<forall>c\<in>set v. (of_char c :: nat) < 128 \<Longrightarrow>
   tags d = before @ makeKeyValueTag key v # after \<Longrightarrow>
   \<forall>tag\<in>set before. \<not> startsWithCaseInsensitive tag (makeKeyValueTagPrefix key) \<Longrightarrow>
     makeKeyValueTag key v = ''kv:'' @ key @ '':'' @ asciiToHex v
     \<and> getTagValue key d = (Str v, [])"
  using getTagValueLoop_first [of before "makeKeyValueTagPrefix key" "asciiToHex v" after]
  by (simp add: getTagValue_def makeKeyValueTag_eq hexToString_asciiToHex
      makeKeyValueTagPrefix_eq)

theorem getTagValue_roundtrip_witness:
  "list_all (\<lambda>c. (of_char c :: nat) < 128) ''ok''
   \<and> tags \<lparr>droplet_id = 7, status = ''active'',
            tags = [''shadowbox'', ''kv:certsha256:4142'', ''kv:apiurl:6f6b'',
                    ''kv:apiurl:6e6f''],
            networks_v4 = []\<rparr>
       = [''shadowbox'', ''kv:certsha256:4142''] @ makeKeyValueTag ''apiurl'' ''ok''
           # [''kv:apiurl:6e6f'']
   \<and> list_all (\<lambda>tag. \<not> startsWithCaseInsensitive tag (makeKeyValueTagPrefix ''apiurl''))
         [''shadowbox'', ''kv:certsha256:4142'']
   \<and> getTagValue ''apiurl''
        \<lparr>droplet_id = 7, status = ''active'',
         tags = [''shadowbox'', ''kv:certsha256:4142'', ''kv:apiurl:6f6b'',
                 ''kv:apiurl:6e6f''],
         networks_v4 = []\<rparr>
       = (Str ''ok'', [])"
proof -
  have ascii: "\<forall>c\<in>set ''ok''. (of_char c :: nat) < 128"
    by simp
  have here: "tags \<lparr>droplet_id = 7, status = ''active'',
            tags = [''shadowbox'', ''kv:certsha256:4142'', ''kv:apiurl:6f6b'',
                    ''kv:apiurl:6e6f''],
            networks_v4 = []\<rparr>
       = [''shadowbox'', ''kv:certsha256:4142''] @ makeKeyValueTag ''apiurl'' ''ok''
           # [''kv:apiurl:6e6f'']"
    by (simp add: makeKeyValueTag_eq makeKeyValueTagPrefix_eq asciiToHex_def hexDigit_def
        char_code)
  have first: "\<forall>tag\<in>set [''shadowbox'', ''kv:certsha256:4142''].
         \<not> startsWithCaseInsensitive tag (makeKeyValueTagPrefix ''apiurl'')"
    by (simp add: makeKeyValueTagPrefix_eq startsWithCaseInsensitive_def toLowerCase_def
        toLowerCase_char_def char_code)
  show ?thesis
    using ascii here first getTagValue_roundtrip [OF ascii here first]
    unfolding list_all_iff by blast
qed

section \<open>Priority of the checks\<close>

lemma getTagValueLoop_truthy_silent:
  "truthy (fst (getTagValueLoop tagPrefix tagList)) \<Longrightarrow>
     snd (getTagValueLoop tagPrefix tagList) = []"
  by (induction tagList) (auto split: option.splits if_splits)

lemma getTagValue_truthy_silent:
  "truthy (fst (getTagValue key d)) \<Longrightarrow> snd (getTagValue key d) = []"
  by (simp add: getTagValue_def getTagValueLoop_truthy_silent)

lemma fst_setApiUrlAndCertificate_console:
  "fst (setApiUrlAndCertificate (s\<lparr>console := c\<rparr>)) = fst (setApiUrlAndCertificate s)"
  by (auto simp: setApiUrlAndCertificate_def split: sum.splits prod.splits)

text \<open>
  C6, as the claim states it, fails for an install-error tag without a value: the droplet
  below carries the tag \<open>kv:install-error:\<close> next to valid \<open>apiurl\<close> and
  \<open>certsha256\<close> tags, \<open>getTagValue\<close> gives the empty string for it, which is not
  truthy, and \<open>updateInstallState\<close> ends in \<open>SUCCESS\<close>.
\<close>

theorem updateInstallState_priority_counterexample:
  "makeKeyValueTag INSTALL_ERROR_TAG ''''
     \<in> set [''kv:install-error:'', ''kv:apiurl:68747470733a2f2f782f'',
             ''kv:certsha256:4142'']
   \<and> getTagValue INSTALL_ERROR_TAG
        \<lparr>droplet_id = 7, status = ''active'',
         tags = [''kv:install-error:'', ''kv:apiurl:68747470733a2f2f782f'',
                 ''kv:certsha256:4142''],
         networks_v4 = []\<rparr>
       = (Str '''', [])
   \<and> installState (updateInstallState 0 1000
        \<lparr>installState = UNKNOWN,
         dropletInfo =
           \<lparr>droplet_id = 7, status = ''active'',
            tags = [''kv:install-error:'', ''kv:apiurl:68747470733a2f2f782f'',
                    ''kv:certsha256:4142''],
            networks_v4 = []\<rparr>,
         managementApiUrl = None, trustedCertificates = [], emitted = [], console = []\<rparr>)
       = SUCCESS"
  by code_simp

text \<open>
  C6, amended. Priority of the checks in \<open>updateInstallState\<close> when \<open>installState\<close> is
  \<open>UNKNOWN\<close>: a truthy install-error value (the first install-error tag decodes to a
  non-empty string) takes precedence over the timeout, and the timeout over success. With
  a truthy install-error value the state becomes \<open>ERROR\<close> and the error tag is printed,
  whatever time has passed and whatever other tags are present, valid \<open>apiurl\<close> and
  \<open>certsha256\<close> tags among them; without one, once five minutes have passed, the state
  becomes \<open>ERROR\<close> and the timeout is printed, after the line that reading an
  install-error tag which does not decode has printed, also when valid \<open>apiurl\<close> and
  \<open>certsha256\<close> tags are present; only otherwise the state becomes \<open>SUCCESS\<close>, when
  \<open>setApiUrlAndCertificate\<close> succeeds.
\<close>

theorem updateInstallState_priority:
  "installState s = UNKNOWN \<Longrightarrow>
     (truthy (fst (getTagValue INSTALL_ERROR_TAG (dropletInfo s))) \<longrightarrow>
        updateInstallState startTimestamp now s
          = s\<lparr>console := console s @
                 [ConsoleError (''error tag: ''
                    @ display (fst (getTagValue INSTALL_ERROR_TAG (dropletInfo s))))],
              installState := ERROR\<rparr>)
     \<and> (\<not> truthy (fst (getTagValue INSTALL_ERROR_TAG (dropletInfo s)))
          \<and> now - startTimestamp \<ge> 5 * 60 * 1000 \<longrightarrow>
        updateInstallState startTimestamp now s
          = s\<lparr>console := console s @ snd (getTagValue INSTALL_ERROR_TAG (dropletInfo s))
                 @ [ConsoleError ''hit timeout while waiting for installation''],
              installState := ERROR\<rparr>)
     \<and> (\<not> truthy (fst (getTagValue INSTALL_ERROR_TAG (dropletInfo s)))
          \<and> now - startTimestamp < 5 * 60 * 1000 \<longrightarrow>
        installState (updateInstallState startTimestamp now s)
          = (if fst (setApiUrlAndCertificate s) then SUCCESS else UNKNOWN))"
proof (cases "getTagValue INSTALL_ERROR_TAG (dropletInfo s)")
  case (Pair errorTag printed)
  assume unknown: "installState s = UNKNOWN"
  have silent: "truthy errorTag \<Longrightarrow> printed = []"
    using getTagValue_truthy_silent [of INSTALL_ERROR_TAG "dropletInfo s"] Pair by simp
  show ?thesis
    using Pair unknown silent
      installState_setApiUrlAndCertificate [of "s\<lparr>console := console s @ printed\<rparr>"]
      fst_setApiUrlAndCertificate_console [of "console s @ printed" s]
    by (cases "setApiUrlAndCertificate (s\<lparr>console := console s @ printed\<rparr>)")
      (auto simp: updateInstallState_def TIMEOUT_MS_def split: bool.splits)
qed

theorem updateInstallState_priority_witness:
  "fst (setApiUrlAndCertificate
        \<lparr>installState = UNKNOWN,
         dropletInfo =
           \<lparr>droplet_id = 7, status = ''active'',
            tags = [''kv:apiurl:68747470733a2f2f782f'', ''kv:certsha256:4142'',
                    ''kv:install-error:6661696c''],
            networks_v4 = []\<rparr>,
         managementApiUrl = None, trustedCertificates = [], emitted = [],
         console = []\<rparr>)
   \<and> updateInstallState 0 1000
        \<lparr>installState = UNKNOWN,
         dropletInfo =
           \<lparr>droplet_id = 7, status = ''active'',
            tags = [''kv:apiurl:68747470733a2f2f782f'', ''kv:certsha256:4142'',
                    ''kv:install-error:6661696c''],
            networks_v4 = []\<rparr>,
         managementApiUrl = None, trustedCertificates = [], emitted = [],
         console = []\<rparr>
       = \<lparr>installState = ERROR,
         dropletInfo =
           \<lparr>droplet_id = 7, status = ''active'',
            tags = [''kv:apiurl:68747470733a2f2f782f'', ''kv:certsha256:4142'',
                    ''kv:install-error:6661696c''],
            networks_v4 = []\<rparr>,
         managementApiUrl = None, trustedCertificates = [], emitted = [],
         console = [ConsoleError ''error tag: fail'']\<rparr>
   \<and> fst (setApiUrlAndCertificate
        \<lparr>installState = UNKNOWN,
         dropletInfo =
           \<lparr>droplet_id = 7, status = ''active'',
            tags = [''kv:apiurl:68747470733a2f2f782f'', ''kv:certsha256:4142''],
            networks_v4 = []\<rparr>,
         managementApiUrl = None, trustedCertificates = [], emitted = [],
         console = []\<rparr>)
   \<and> updateInstallState 0 300000
        \<lparr>installState = UNKNOWN,
         dropletInfo =
           \<lparr>droplet_id = 7, status = ''active'',
            tags = [''kv:apiurl:68747470733a2f2f782f'', ''kv:certsha256:4142''],
            networks_v4 = []\<rparr>,
         managementApiUrl = None, trustedCertificates = [], emitted = [],
         console = []\<rparr>
       = \<lparr>installState = ERROR,
         dropletInfo =
           \<lparr>droplet_id = 7, status = ''active'',
            tags = [''kv:apiurl:68747470733a2f2f782f'', ''kv:certsha256:4142''],
            networks_v4 = []\<rparr>,
         managementApiUrl = None, trustedCertificates = [], emitted = [],
         console = [ConsoleError ''hit timeout while waiting for installation'']\<rparr>
   \<and> updateInstallState 0 300000
        \<lparr>installState = UNKNOWN,
         dropletInfo =
           \<lparr>droplet_id = 7, status = ''active'',
            tags = [''kv:install-error:6''],
            networks_v4 = []\<rparr>,
         managementApiUrl = None, trustedCertificates = [], emitted = [],
         console = []\<rparr>
       = \<lparr>installState = ERROR,
         dropletInfo =
           \<lparr>droplet_id = 7, status = ''active'',
            tags = [''kv:install-error:6''],
            networks_v4 = []\<rparr>,
         managementApiUrl = None, trustedCertificates = [], emitted = [],
         console = [ConsoleError ''error decoding hex string'',
                    ConsoleError ''hit timeout while waiting for installation'']\<rparr>"
proof -
  have tag: "getTagValue INSTALL_ERROR_TAG
      \<lparr>droplet_id = 7, status = ''active'',
       tags = [''kv:apiurl:68747470733a2f2f782f'', ''kv:certsha256:4142'',
                    ''kv:install-error:6661696c''],
       networks_v4 = []\<rparr> = (Str ''fail'', [])"
    by code_simp
  have notag: "getTagValue INSTALL_ERROR_TAG
      \<lparr>droplet_id = 7, status = ''active'',
       tags = [''kv:apiurl:68747470733a2f2f782f'', ''kv:certsha256:4142''],
       networks_v4 = []\<rparr> = (Undefined, [])"
    by code_simp
  have badtag: "getTagValue INSTALL_ERROR_TAG
      \<lparr>droplet_id = 7, status = ''active'',
       tags = [''kv:install-error:6''],
       networks_v4 = []\<rparr> = (Null, [ConsoleError ''error decoding hex string''])"
    by code_simp
  have ok1: "fst (setApiUrlAndCertificate
        \<lparr>installState = UNKNOWN,
         dropletInfo =
           \<lparr>droplet_id = 7, status = ''active'',
            tags = [''kv:apiurl:68747470733a2f2f782f'', ''kv:certsha256:4142'',
                    ''kv:install-error:6661696c''],
            networks_v4 = []\<rparr>,
         managementApiUrl = None, trustedCertificates = [], emitted = [],
         console = []\<rparr>)"
    by code_simp
  have ok2: "fst (setApiUrlAndCertificate
        \<lparr>installState = UNKNOWN,
         dropletInfo =
           \<lparr>droplet_id = 7, status = ''active'',
            tags = [''kv:apiurl:68747470733a2f2f782f'', ''kv:certsha256:4142''],
            networks_v4 = []\<rparr>,
         managementApiUrl = None, trustedCertificates = [], emitted = [],
         console = []\<rparr>)"
    by code_simp
  show ?thesis
    using tag notag badtag ok1 ok2
      updateInstallState_priority [of "\<lparr>installState = UNKNOWN,
         dropletInfo =
           \<lparr>droplet_id = 7, status = ''active'',
            tags = [''kv:apiurl:68747470733a2f2f782f'', ''kv:certsha256:4142'',
                    ''kv:install-error:6661696c''],
            networks_v4 = []\<rparr>,
         managementApiUrl = None, trustedCertificates = [], emitted = [],
         console = []\<rparr>"
        0 1000]
      updateInstallState_priority [of "\<lparr>installState = UNKNOWN,
         dropletInfo =
           \<lparr>droplet_id = 7, status = ''active'',
            tags = [''kv:apiurl:68747470733a2f2f782f'', ''kv:certsha256:4142''],
            networks_v4 = []\<rparr>,
         managementApiUrl = None, trustedCertificates = [], emitted = [],
         console = []\<rparr>"
        0 300000]
      updateInstallState_priority [of "\<lparr>installState = UNKNOWN,
         dropletInfo =
           \<lparr>droplet_id = 7, status = ''active'',
            tags = [''kv:install-error:6''],
            networks_v4 = []\<rparr>,
         managementApiUrl = None, trustedCertificates = [], emitted = [],
         console = []\<rparr>"
        0 300000]
    by simp
qed

section \<open>Locations\<close>

lemma listLocationsOf_snoc:
  "listLocationsOf (regionInfos @ [region])
     = listLocationsEach (listLocationsOf regionInfos) region"
  by (simp add: listLocationsOf_def)

lemma first_occurrences_snoc:
  "rev (remdups (rev (cs @ [c])))
     = (if c \<in> set cs then rev (remdups (rev cs)) else rev (remdups (rev cs)) @ [c])"
  by simp

lemma find_regionId_None:
  "(find (\<lambda>entry. regionId entry = c)
      (map (\<lambda>k. \<lparr>regionId = k, dataCenterIds = g k\<rparr>) ks) = None) = (c \<notin> set ks)"
  by (induction ks) auto

lemma pushDataCenterId_map:
  "distinct ks \<Longrightarrow>
     pushDataCenterId c dc (map (\<lambda>k. \<lparr>regionId = k, dataCenterIds = g k\<rparr>) ks)
       = map (\<lambda>k. \<lparr>regionId = k, dataCenterIds = (if k = c then g k @ [dc] else g k)\<rparr>) ks"
  by (induction ks) auto

lemma listLocationsOf_eq:
  "listLocationsOf regionInfos =
     (let offered = filter (\<lambda>r. available r \<and> MACHINE_SIZE \<in> set (sizes r)) regionInfos
      in map (\<lambda>city. \<lparr>regionId = city,
                       dataCenterIds =
                         map slug (filter (\<lambda>r. GetCityId (slug r) = city) offered)\<rparr>)
           (rev (remdups (rev (map (\<lambda>r. GetCityId (slug r)) offered)))))"
proof (induction regionInfos rule: rev_induct)
  case Nil
  then show ?case by (simp add: listLocationsOf_def)
next
  case (snoc region regionInfos)
  define offered where
    "offered = filter (\<lambda>r. available r \<and> MACHINE_SIZE \<in> set (sizes r)) regionInfos"
  define cities where "cities = rev (remdups (rev (map (\<lambda>r. GetCityId (slug r)) offered)))"
  define g where "g = (\<lambda>city. map slug (filter (\<lambda>r. GetCityId (slug r) = city) offered))"
  have IH: "listLocationsOf regionInfos
      = map (\<lambda>city. \<lparr>regionId = city, dataCenterIds = g city\<rparr>) cities"
    using snoc by (simp add: offered_def cities_def g_def Let_def)
  have dist: "distinct cities"
    by (simp add: cities_def)
  have set_cities: "set cities = (\<lambda>r. GetCityId (slug r)) ` set offered"
    by (simp add: cities_def)
  show ?case
  proof (cases "available region \<and> MACHINE_SIZE \<in> set (sizes region)")
    case False
    then show ?thesis
      using snoc by (auto simp: listLocationsOf_snoc listLocationsEach_def Let_def)
  next
    case True
    let ?c = "GetCityId (slug region)"
    have off: "filter (\<lambda>r. available r \<and> MACHINE_SIZE \<in> set (sizes r))
        (regionInfos @ [region]) = offered @ [region]"
      using True by (simp add: offered_def)
    show ?thesis
    proof (cases "?c \<in> set cities")
      case True
      then have "find (\<lambda>entry. regionId entry = ?c) (listLocationsOf regionInfos) \<noteq> None"
        by (simp add: IH find_regionId_None)
      then have "listLocationsOf (regionInfos @ [region])
          = pushDataCenterId ?c (slug region) (listLocationsOf regionInfos)"
        using \<open>available region \<and> MACHINE_SIZE \<in> set (sizes region)\<close>
        by (auto simp: listLocationsOf_snoc listLocationsEach_def Let_def)
      also have "\<dots> = map (\<lambda>k. \<lparr>regionId = k,
            dataCenterIds = (if k = ?c then g k @ [slug region] else g k)\<rparr>) cities"
        by (simp add: IH pushDataCenterId_map [OF dist])
      also have "\<dots> = map (\<lambda>city. \<lparr>regionId = city,
            dataCenterIds = map slug (filter (\<lambda>r. GetCityId (slug r) = city)
              (offered @ [region]))\<rparr>) cities"
        by (auto simp: g_def)
      finally show ?thesis
        using True unfolding Let_def off
        by (simp add: cities_def set_cities [unfolded cities_def])
    next
      case False
      then have "find (\<lambda>entry. regionId entry = ?c) (listLocationsOf regionInfos) = None"
        by (simp add: IH find_regionId_None)
      then have "listLocationsOf (regionInfos @ [region])
          = listLocationsOf regionInfos @ [\<lparr>regionId = ?c, dataCenterIds = [slug region]\<rparr>]"
        using \<open>available region \<and> MACHINE_SIZE \<in> set (sizes region)\<close>
        by (auto simp: listLocationsOf_snoc listLocationsEach_def Let_def)
      also have "\<dots> = map (\<lambda>city. \<lparr>regionId = city,
            dataCenterIds = map slug (filter (\<lambda>r. GetCityId (slug r) = city)
              (offered @ [region]))\<rparr>) (cities @ [?c])"
      proof -
        have "filter (\<lambda>r. GetCityId (slug r) = ?c) offered = []"
          using False unfolding set_cities filter_empty_conv by (metis imageI)
        moreover have "\<forall>city\<in>set cities. city \<noteq> ?c"
          using False by auto
        ultimately show ?thesis
          by (auto simp: IH g_def)
      qed
      finally show ?thesis
        using False unfolding Let_def off
        by (simp add: cities_def set_cities [unfolded cities_def])
    qed
  qed
qed

text \<open>
  C9, as the claim states it, fails: \<open>listLocations\<close> drops a region that is not
  available (the first list of regions below gives no location) and puts the regions of one
  city into one location (the second gives one location for two regions).
\<close>

theorem listLocations_counterexample:
  "fst (listLocations showInt
          (Inr [\<lparr>slug = ''nyc1'', available = False, sizes = [''s-1vcpu-1gb'']\<rparr>])
          \<lparr>domainEvents = [], accountConsole = []\<rparr>)
     = Some []
   \<and> fst (listLocations showInt
          (Inr [\<lparr>slug = ''nyc1'', available = True, sizes = [''s-1vcpu-1gb'']\<rparr>,
                \<lparr>slug = ''nyc3'', available = True, sizes = [''s-1vcpu-1gb'']\<rparr>])
          \<lparr>domainEvents = [], accountConsole = []\<rparr>)
     = Some [\<lparr>regionId = ''nyc'', dataCenterIds = [''nyc1'', ''nyc3'']\<rparr>]"
  by code_simp

text \<open>
  C9, amended. For every list of region infos returned by the provider, \<open>listLocations\<close>
  keeps the regions that are available and offer the machine size \<open>s-1vcpu-1gb\<close> and
  drops the others; it returns one location for each city id among the regions kept (the
  first three characters of the slug, in lower case), in the order in which the cities
  first appear, and the location lists the slugs of the regions kept of that city, in the
  provider's order. Nothing is emitted or printed.
\<close>

theorem listLocations_groups:
  "listLocations numberToString (Inr regionInfos) a =
     (let offered = filter (\<lambda>r. available r \<and> ''s-1vcpu-1gb'' \<in> set (sizes r)) regionInfos;
          cityOf = (\<lambda>r. toLowerCase (take 3 (slug r)))
      in Some (map (\<lambda>city. \<lparr>regionId = city,
                              dataCenterIds = map slug (filter (\<lambda>r. cityOf r = city) offered)\<rparr>)
                 (rev (remdups (rev (map cityOf offered))))),
      a)"
  using listLocationsOf_eq [of regionInfos]
  by (simp add: listLocations_def Let_def MACHINE_SIZE_def GetCityId_def)

theorem listLocations_groups_witness:
  "listLocations showInt
     (Inr [\<lparr>slug = ''nyc1'', available = True, sizes = [''s-1vcpu-1gb'']\<rparr>,
           \<lparr>slug = ''sfo1'', available = True, sizes = [''s-2vcpu-2gb'']\<rparr>,
           \<lparr>slug = ''ams2'', available = True, sizes = [''s-1vcpu-1gb'', ''s-2vcpu-2gb'']\<rparr>,
           \<lparr>slug = ''NYC3'', available = True, sizes = [''s-1vcpu-1gb'']\<rparr>])
     \<lparr>domainEvents = [], accountConsole = []\<rparr>
   = (Some [\<lparr>regionId = ''nyc'', dataCenterIds = [''nyc1'', ''NYC3'']\<rparr>,
            \<lparr>regionId = ''ams'', dataCenterIds = [''ams2'']\<rparr>],
      \<lparr>domainEvents = [], accountConsole = []\<rparr>)"
  using listLocations_groups [of showInt
      "[\<lparr>slug = ''nyc1'', available = True, sizes = [''s-1vcpu-1gb'']\<rparr>,
        \<lparr>slug = ''sfo1'', available = True, sizes = [''s-2vcpu-2gb'']\<rparr>,
        \<lparr>slug = ''ams2'', available = True, sizes = [''s-1vcpu-1gb'', ''s-2vcpu-2gb'']\<rparr>,
        \<lparr>slug = ''NYC3'', available = True, sizes = [''s-1vcpu-1gb'']\<rparr>]"
      "\<lparr>domainEvents = [], accountConsole = []\<rparr>"]
  by (simp add: Let_def toLowerCase_def toLowerCase_char_def char_code)

section \<open>The install script\<close>

lemma alphabet_codes:
  "map of_char ''ABCDEFGHIJKLMNOPQRSTUVWXYZabcdefghijklmnopqrstuvwxyz0123456789_/-''
     = [65..<91] @ [97..<123] @ [48..<58] @ [95, 47, 45 :: nat]"
  by code_simp

lemma tokenChar_codes:
  "tokenChar c
     = ((of_char c :: nat) \<in> set ([65..<91] @ [97..<123] @ [48..<58] @ [95, 47, 45]))"
proof -
  have "(c = CHR ''_'') = ((of_char c :: nat) = 95)"
    "(c = CHR ''/'') = ((of_char c :: nat) = 47)"
    "(c = CHR ''-'') = ((of_char c :: nat) = 45)"
    by (simp_all flip: of_char_eq_iff [where ?'a = nat])
  then have "tokenChar c =
      ((of_char c :: nat) \<in> {65..<91} \<union> {97..<123} \<union> {48..<58} \<union> {95, 47, 45})"
    unfolding tokenChar_def Let_def by (simp only: Un_iff atLeastLessThan_iff insert_iff empty_iff) arith
  then show ?thesis
    by (simp only: set_append set_upt list.set Un_assoc)
qed

lemma tokenChar_alphabet:
  "tokenChar c
     = (c \<in> set ''ABCDEFGHIJKLMNOPQRSTUVWXYZabcdefghijklmnopqrstuvwxyz0123456789_/-'')"
proof -
  have "tokenChar c = ((of_char c :: nat) \<in> of_char `
      set ''ABCDEFGHIJKLMNOPQRSTUVWXYZabcdefghijklmnopqrstuvwxyz0123456789_/-'')"
    unfolding tokenChar_codes alphabet_codes [symmetric] set_map ..
  then show ?thesis
    by (simp only: inj_image_mem_iff [OF inj_of_char])
qed

lemma patternTest_alphabet:
  "patternTest t
     = (t \<noteq> [] \<and> set t
          \<subseteq> set ''ABCDEFGHIJKLMNOPQRSTUVWXYZabcdefghijklmnopqrstuvwxyz0123456789_/-'')"
  unfolding patternTest_def list_all_iff tokenChar_alphabet by blast

text \<open>
  C8, as the claim states it, fails for an optional argument that is set to the empty
  string, which is not truthy: when the settings hold empty strings, \<open>createServer\<close>
  passes them as \<open>image\<close>, \<open>metricsUrl\<close> and \<open>sentryApiUrl\<close>, and the script has
  none of the lines \<open>SB_IMAGE\<close>, \<open>SB_METRICS_URL\<close> and \<open>SENTRY_API_URL\<close>.
\<close>

theorem getInstallScript_counterexample:
  "installCommand ''BODY'' showInt ''tok'' ''n''
       \<lparr>containerImageId = Some [], metricsUrl = Some [], sentryApiUrl = Some []\<rparr>
     = getInstallScript ''BODY'' showInt ''tok'' ''n'' (Some []) None (Some []) (Some [])
   \<and> getInstallScript ''BODY'' showInt ''tok'' ''n'' (Some []) None (Some []) (Some [])
     = Inr (''#!/bin/bash -eu'' @ [CHR 0x0A]
            @ ''export DO_ACCESS_TOKEN=tok'' @ [CHR 0x0A]
            @ ''export SB_DEFAULT_SERVER_NAME='' @ [CHR 0x22] @ ''n'' @ [CHR 0x22, CHR 0x0A]
            @ ''BODY'')"
  by code_simp

text \<open>
  C8, amended. \<open>getInstallScript\<close> throws \<open>Invalid DigitalOcean Token\<close> if and only
  if the trimmed access token fails to match the pattern, that is, is empty or has a
  character other than a letter, a digit, underscore, slash or hyphen. Otherwise it
  returns the string that begins with \<open>#!/bin/bash -eu\<close> and a newline, exports the
  trimmed token as \<open>DO_ACCESS_TOKEN\<close>, has each optional export line (\<open>SB_IMAGE\<close>,
  \<open>WATCHTOWER_REFRESH_SECONDS\<close>, \<open>SENTRY_API_URL\<close>, \<open>SB_METRICS_URL\<close>, in this
  order) exactly when the corresponding argument is truthy (a non-empty string, a number
  other than 0), exports the server name as \<open>SB_DEFAULT_SERVER_NAME\<close>, and ends with
  the install script body. The number of seconds appears as the platform prints it.
\<close>

theorem getInstallScript_builds:
  "getInstallScript SCRIPT numberToString accessToken name imageId watchtowerRefreshSeconds
       metrics sentry =
     (if \<not> patternTest (trim accessToken) then Inl (JsError ''Invalid DigitalOcean Token'')
      else Inr (''#!/bin/bash -eu'' @ [CHR 0x0A]
               @ ''export DO_ACCESS_TOKEN='' @ trim accessToken @ [CHR 0x0A]
               @ (case imageId of
                    Some i \<Rightarrow> if i \<noteq> [] then ''export SB_IMAGE='' @ i @ [CHR 0x0A] else []
                  | None \<Rightarrow> [])
               @ (case watchtowerRefreshSeconds of
                    Some n \<Rightarrow>
                      if n \<noteq> 0
                      then ''export WATCHTOWER_REFRESH_SECONDS='' @ numberToString n
                           @ [CHR 0x0A]
                      else []
                  | None \<Rightarrow> [])
               @ (case sentry of
                    Some u \<Rightarrow>
                      if u \<noteq> []
                      then ''export SENTRY_API_URL='' @ [CHR 0x22] @ u @ [CHR 0x22, CHR 0x0A]
                      else []
                  | None \<Rightarrow> [])
               @ (case metrics of
                    Some u \<Rightarrow>
                      if u \<noteq> [] then ''export SB_METRICS_URL='' @ u @ [CHR 0x0A] else []
                  | None \<Rightarrow> [])
               @ ''export SB_DEFAULT_SERVER_NAME='' @ [CHR 0x22] @ name
               @ [CHR 0x22, CHR 0x0A] @ SCRIPT))
   \<and> patternTest t
       = (t \<noteq> [] \<and> set t
            \<subseteq> set ''ABCDEFGHIJKLMNOPQRSTUVWXYZabcdefghijklmnopqrstuvwxyz0123456789_/-'')"
  using patternTest_alphabet [of t]
  by (simp add: getInstallScript_def sanitizeDigitalOceanToken_def Let_def)

theorem getInstallScript_builds_witness:
  "getInstallScript ''BODY'' showInt '' tok_1/a-b '' ''my server'' (Some ''img'') (Some 30)
       (Some ''https://m'') None
     = Inr (''#!/bin/bash -eu'' @ [CHR 0x0A]
            @ ''export DO_ACCESS_TOKEN=tok_1/a-b'' @ [CHR 0x0A]
            @ ''export SB_IMAGE=img'' @ [CHR 0x0A]
            @ ''export WATCHTOWER_REFRESH_SECONDS=30'' @ [CHR 0x0A]
            @ ''export SB_METRICS_URL=https://m'' @ [CHR 0x0A]
            @ ''export SB_DEFAULT_SERVER_NAME='' @ [CHR 0x22] @ ''my server''
            @ [CHR 0x22, CHR 0x0A] @ ''BODY'')
   \<and> getInstallScript ''BODY'' showInt ''to ken'' ''my server'' None None None None
     = Inl (JsError ''Invalid DigitalOcean Token'')"
proof -
  have t1: "trim '' tok_1/a-b '' = ''tok_1/a-b''" and t2: "trim ''to ken'' = ''to ken''"
    by code_simp+
  have p1: "patternTest ''tok_1/a-b''" and p2: "\<not> patternTest ''to ken''"
    by code_simp+
  have n: "showInt 30 = ''30''"
    by code_simp
  show ?thesis
    using getInstallScript_builds [of "''BODY''" showInt "'' tok_1/a-b ''" "''my server''"
        "Some ''img''" "Some 30" "Some ''https://m''" None "[]"]
      getInstallScript_builds [of "''BODY''" showInt "''to ken''" "''my server''" None None
        None None "[]"]
    by (simp add: t1 t2 p1 p2 n)
qed

end
